theory Spec2Isabelle
  imports Complex_Main "HOL-Library.Word"
begin

section \<open>Source.cpp: one window, one triangle\<close>

text \<open>
  The program is a single \<open>main\<close> routine and two small functions
  (\<open>framebuffer_size_callback\<close>, \<open>processInput\<close>) that sequence calls into the
  windowing library and the graphics driver. The embedding keeps that shape: every
  library call the program makes is appended to a trace, in program order, with the
  arguments the source passes; everything the libraries hand back (the window pointer,
  the loader's result, the object names, the compile and link status, the info logs, the
  key state and the events of each frame) is read from an environment.
\<close>

subsection \<open>C types and the constants of the two libraries\<close>

type_synonym c_int = "32 word"
type_synonym GLuint = "32 word"
type_synonym GLfloat = rat

text \<open>
  A \<open>float\<close> literal of the source is kept as the decimal number it is written as; its
  rounding to binary32 is not part of the model.
\<close>

datatype GLFWwindow_ptr = NULL | Window nat

datatype glfw_hint = GLFW_CONTEXT_VERSION_MAJOR | GLFW_CONTEXT_VERSION_MINOR | GLFW_OPENGL_PROFILE

datatype hint_value = Value c_int | GLFW_OPENGL_CORE_PROFILE

datatype glfw_key = GLFW_KEY_ESCAPE

datatype key_action = GLFW_RELEASE | GLFW_PRESS

datatype GLenum =
    GL_VERTEX_SHADER | GL_FRAGMENT_SHADER | GL_COMPILE_STATUS | GL_LINK_STATUS
  | GL_ARRAY_BUFFER | GL_STATIC_DRAW | GL_FLOAT | GL_FALSE | GL_TRIANGLES
  | GL_COLOR_BUFFER_BIT

text \<open>
  One constructor per library entry point the program calls, with the arguments of the
  call. Output pointers (\<open>&success\<close>, \<open>infoLog\<close>, \<open>&VBO\<close>, \<open>&VAO\<close>) are results, read
  from the environment; the \<open>NULL\<close> arguments of \<open>glfwCreateWindow\<close>,
  \<open>glShaderSource\<close> and \<open>glGet*InfoLog\<close> are constant and left out.
  \<open>cout_endl s\<close> is \<open>std::cout << s << std::endl\<close>. The two deleting calls that take a
  pointer to a name carry the name pointed to.
\<close>

datatype call =
    glfwInit
  | glfwWindowHint glfw_hint hint_value
  | glfwCreateWindow c_int c_int string
  | cout_endl string
  | glfwTerminate
  | glfwMakeContextCurrent GLFWwindow_ptr
  | glfwSetFramebufferSizeCallback GLFWwindow_ptr
  | gladLoadGLLoader
  | glCreateShader GLenum
  | glShaderSource GLuint c_int string
  | glCompileShader GLuint
  | glGetShaderiv GLuint GLenum
  | glGetShaderInfoLog GLuint c_int
  | glCreateProgram
  | glAttachShader GLuint GLuint
  | glLinkProgram GLuint
  | glGetProgramiv GLuint GLenum
  | glGetProgramInfoLog GLuint c_int
  | glUseProgram GLuint
  | glDeleteShader GLuint
  | glGenBuffers c_int
  | glBindBuffer GLenum GLuint
  | glBufferData GLenum nat "GLfloat list" GLenum
  | glGenVertexArrays c_int
  | glBindVertexArray GLuint
  | glVertexAttribPointer GLuint c_int GLenum GLenum nat nat
  | glEnableVertexAttribArray GLuint
  | glfwWindowShouldClose GLFWwindow_ptr
  | glfwGetKey GLFWwindow_ptr glfw_key
  | glfwSetWindowShouldClose GLFWwindow_ptr bool
  | glClearColor GLfloat GLfloat GLfloat GLfloat
  | glClear GLenum
  | glDrawArrays GLenum c_int c_int
  | glfwSwapBuffers GLFWwindow_ptr
  | glfwPollEvents
  | glViewport c_int c_int c_int c_int
  | glDeleteVertexArrays c_int GLuint
  | glDeleteBuffers c_int GLuint
  | glDeleteProgram GLuint

subsection \<open>The environment\<close>

text \<open>
  What the window system delivers while \<open>glfwPollEvents\<close> runs: a request to close the
  window, or a new framebuffer size, for which the library invokes the registered
  resize callback.
\<close>

datatype event = CloseRequest | FramebufferSize c_int c_int

text \<open>
  The inputs of one iteration of the render loop: what \<open>glfwGetKey\<close> returns for the
  escape key, and the events \<open>glfwPollEvents\<close> processes.
\<close>

record frame =
  escape_key :: key_action
  events :: "event list"

text \<open>
  The results of the calls of one run. \<open>frames\<close> is the finite script of loop inputs
  the run is observed on: a run whose script ends before the close flag is set is still
  inside the loop.
\<close>

record env =
  glfwInit_result :: c_int
  glfwCreateWindow_result :: GLFWwindow_ptr
  gladLoadGLLoader_result :: c_int
  vertexShader_name :: GLuint
  vertex_compile_status :: c_int
  vertex_infoLog :: string
  fragmentShader_name :: GLuint
  fragment_compile_status :: c_int
  fragment_infoLog :: string
  shaderProgram_name :: GLuint
  link_status :: c_int
  program_infoLog :: string
  VBO_name :: GLuint
  VAO_name :: GLuint
  frames :: "frame list"

subsection \<open>The state the program acts on\<close>

record world =
  trace :: "call list"
  shouldClose :: bool

definition initial :: world where
  "initial = \<lparr>trace = [], shouldClose = False\<rparr>"

definition calls :: "call list \<Rightarrow> world \<Rightarrow> world" where
  "calls cs w = w\<lparr>trace := trace w @ cs\<rparr>"

text \<open>
  The three entry points of the windowing library whose effect on the close flag the
  program depends on. \<open>glfwWindowShouldClose\<close> reads the flag,
  \<open>glfwSetWindowShouldClose\<close> writes it, and \<open>glfwPollEvents\<close> hands every pending
  event to its handler: a close request sets the flag, a new framebuffer size goes to the
  callback registered with \<open>glfwSetFramebufferSizeCallback\<close>.
\<close>

definition lib_glfwWindowShouldClose :: "GLFWwindow_ptr \<Rightarrow> world \<Rightarrow> bool \<times> world" where
  "lib_glfwWindowShouldClose window w = (shouldClose w, calls [glfwWindowShouldClose window] w)"

definition lib_glfwSetWindowShouldClose :: "GLFWwindow_ptr \<Rightarrow> bool \<Rightarrow> world \<Rightarrow> world" where
  "lib_glfwSetWindowShouldClose window v w =
     (calls [glfwSetWindowShouldClose window v] w)\<lparr>shouldClose := v\<rparr>"

subsection \<open>The functions of the source\<close>

definition framebuffer_size_callback :: "GLFWwindow_ptr \<Rightarrow> c_int \<Rightarrow> c_int \<Rightarrow> world \<Rightarrow> world" where
  "framebuffer_size_callback window width height w = calls [glViewport 0 0 width height] w"

fun dispatch :: "GLFWwindow_ptr \<Rightarrow> event \<Rightarrow> world \<Rightarrow> world" where
  "dispatch window CloseRequest w = w\<lparr>shouldClose := True\<rparr>"
| "dispatch window (FramebufferSize width height) w =
     framebuffer_size_callback window width height w"

definition lib_glfwPollEvents :: "GLFWwindow_ptr \<Rightarrow> event list \<Rightarrow> world \<Rightarrow> world" where
  "lib_glfwPollEvents window evs w = fold (dispatch window) evs (calls [glfwPollEvents] w)"

definition processInput :: "GLFWwindow_ptr \<Rightarrow> key_action \<Rightarrow> world \<Rightarrow> world" where
  "processInput window key w =
     (let w = calls [glfwGetKey window GLFW_KEY_ESCAPE] w
      in if key = GLFW_PRESS then lib_glfwSetWindowShouldClose window True w else w)"

definition SCR_WIDTH :: nat where
  "SCR_WIDTH = 800"

definition SCR_HEIGHT :: nat where
  "SCR_HEIGHT = 600"

definition vertexShaderSource :: string where
  "vertexShaderSource =
     ''#version 330 core\<newline>'' @
     ''layout (location = 0) in vec3 aPos;\<newline>'' @
     ''void main()\<newline>'' @
     ''{\<newline>'' @
     ''   gl_Position = vec4(aPos.x, aPos.y, aPos.z, 1.0);\<newline>'' @
     ''}''"

definition fragmentShaderSource :: string where
  "fragmentShaderSource =
     ''#version 330 core\<newline>'' @
     ''out vec4 FragColor;\<newline>'' @
     ''void main()\<newline>'' @
     ''{\<newline>'' @
     ''   FragColor = vec4(1.0f, 0.5f, 0.2f, 1.0f);\<newline>'' @
     ''}\<newline>''"

definition vertices :: "GLfloat list" where
  "vertices = [-0.5, -0.5, 0.0,  0.5, -0.5, 0.0,  0.0, 0.5, 0.0]"

definition sizeof_float :: nat where
  "sizeof_float = 4"

text \<open>The body of the \<open>while\<close> loop of \<open>main\<close>, lines 244 to 266.\<close>

definition loop_body :: "GLFWwindow_ptr \<Rightarrow> GLuint \<Rightarrow> GLuint \<Rightarrow> frame \<Rightarrow> world \<Rightarrow> world" where
  "loop_body window shaderProgram VAO f w =
     (let w = processInput window (escape_key f) w;
          w = calls [glClearColor 0.2 0.3 0.3 1.0, glClear GL_COLOR_BUFFER_BIT] w;
          w = calls [glUseProgram shaderProgram, glBindVertexArray VAO,
                     glDrawArrays GL_TRIANGLES 0 3] w;
          w = calls [glfwSwapBuffers window] w
      in lib_glfwPollEvents window (events f) w)"

text \<open>
  The \<open>while\<close> loop itself: the condition is evaluated at the top, and only there. The
  second component of the result tells whether the loop was left; it is \<open>False\<close> when
  the script of frames ends with the flag unset, after the condition has let the next
  iteration in.
\<close>

fun render_loop :: "GLFWwindow_ptr \<Rightarrow> GLuint \<Rightarrow> GLuint \<Rightarrow> frame list \<Rightarrow> world \<Rightarrow> world \<times> bool" where
  "render_loop window shaderProgram VAO [] w =
     (let (close, w) = lib_glfwWindowShouldClose window w in (w, close))"
| "render_loop window shaderProgram VAO (f # fs) w =
     (let (close, w) = lib_glfwWindowShouldClose window w
      in if close then (w, True)
         else render_loop window shaderProgram VAO fs (loop_body window shaderProgram VAO f w))"

text \<open>
  \<open>main\<close>, in the order of the source. The result is the final state and the value
  returned, \<open>None\<close> for a run that is still inside the render loop when the script of
  frames ends.
\<close>

definition main :: "env \<Rightarrow> world \<times> c_int option" where
  "main e =
     (let w = calls [glfwInit,
                     glfwWindowHint GLFW_CONTEXT_VERSION_MAJOR (Value 3),
                     glfwWindowHint GLFW_CONTEXT_VERSION_MINOR (Value 3),
                     glfwWindowHint GLFW_OPENGL_PROFILE GLFW_OPENGL_CORE_PROFILE,
                     glfwCreateWindow 800 600 ''LearnOpenGL''] initial;
          window = glfwCreateWindow_result e
      in if window = NULL
         then (calls [cout_endl ''Failed to create GLFW window'', glfwTerminate] w, Some (- 1))
         else
           let w = calls [glfwMakeContextCurrent window,
                          glfwSetFramebufferSizeCallback window,
                          gladLoadGLLoader] w
           in if gladLoadGLLoader_result e = 0
              then (calls [cout_endl ''Failed to initialize GLAD''] w, Some (- 1))
              else
                let vertexShader = vertexShader_name e;
                    w = calls [glCreateShader GL_VERTEX_SHADER,
                               glShaderSource vertexShader 1 vertexShaderSource,
                               glCompileShader vertexShader,
                               glGetShaderiv vertexShader GL_COMPILE_STATUS] w;
                    success = vertex_compile_status e;
                    w = (if success = 0
                         then calls [glGetShaderInfoLog vertexShader 512,
                                     cout_endl (''ERROR::SHADER::VERTEX::COMPILATION_FAILED\<newline>''
                                                @ vertex_infoLog e)] w
                         else w);
                    fragmentShader = fragmentShader_name e;
                    w = calls [glCreateShader GL_FRAGMENT_SHADER,
                               glShaderSource fragmentShader 1 fragmentShaderSource,
                               glCompileShader fragmentShader,
                               glGetShaderiv fragmentShader GL_COMPILE_STATUS] w;
                    success = fragment_compile_status e;
                    w = (if success = 0
                         then calls [glGetShaderInfoLog fragmentShader 512,
                                     cout_endl (''ERROR::SHADER::FRAGMENT::COMPILATION_FAILED\<newline>''
                                                @ fragment_infoLog e)] w
                         else w);
                    shaderProgram = shaderProgram_name e;
                    w = calls [glCreateProgram,
                               glAttachShader shaderProgram vertexShader,
                               glAttachShader shaderProgram fragmentShader,
                               glLinkProgram shaderProgram,
                               glGetProgramiv shaderProgram GL_LINK_STATUS] w;
                    success = link_status e;
                    w = (if success = 0
                         then calls [glGetProgramInfoLog shaderProgram 512,
                                     cout_endl (''ERROR::SHADER::PROGRAM::LINKING_FAILED\<newline>''
                                                @ program_infoLog e)] w
                         else w);
                    w = calls [glUseProgram shaderProgram,
                               glDeleteShader vertexShader,
                               glDeleteShader fragmentShader] w;
                    VBO = VBO_name e;
                    w = calls [glGenBuffers 1,
                               glBindBuffer GL_ARRAY_BUFFER VBO,
                               glBufferData GL_ARRAY_BUFFER (length vertices * sizeof_float)
                                 vertices GL_STATIC_DRAW] w;
                    VAO = VAO_name e;
                    w = calls [glGenVertexArrays 1,
                               glBindVertexArray VAO,
                               glVertexAttribPointer 0 3 GL_FLOAT GL_FALSE (3 * sizeof_float) 0,
                               glEnableVertexAttribArray 0,
                               glBindBuffer GL_ARRAY_BUFFER 0,
                               glBindVertexArray 0] w;
                    (w, left) = render_loop window shaderProgram VAO (frames e) w
                in if left
                   then (calls [glDeleteVertexArrays 1 VAO,
                                glDeleteBuffers 1 VBO,
                                glDeleteProgram shaderProgram,
                                glfwTerminate] w, Some 0)
                   else (w, None))"

subsection \<open>What one frame and one run look like\<close>

text \<open>The \<open>glViewport\<close> calls the resize callback makes for the events of one poll.\<close>

fun resize_calls :: "event list \<Rightarrow> call list" where
  "resize_calls [] = []"
| "resize_calls (CloseRequest # evs) = resize_calls evs"
| "resize_calls (FramebufferSize width height # evs) = glViewport 0 0 width height # resize_calls evs"

text \<open>The calls of one iteration of the loop body, in order.\<close>

definition frame_calls :: "GLFWwindow_ptr \<Rightarrow> GLuint \<Rightarrow> GLuint \<Rightarrow> frame \<Rightarrow> call list" where
  "frame_calls window shaderProgram VAO f =
     glfwGetKey window GLFW_KEY_ESCAPE #
     (if escape_key f = GLFW_PRESS then [glfwSetWindowShouldClose window True] else []) @
     [glClearColor 0.2 0.3 0.3 1.0, glClear GL_COLOR_BUFFER_BIT,
      glUseProgram shaderProgram, glBindVertexArray VAO, glDrawArrays GL_TRIANGLES 0 3,
      glfwSwapBuffers window, glfwPollEvents] @
     resize_calls (events f)"

text \<open>A frame asks for the window to close: by the escape key or by a close request.\<close>

definition closes :: "frame \<Rightarrow> bool" where
  "closes f = (escape_key f = GLFW_PRESS \<or> CloseRequest \<in> set (events f))"

text \<open>The frames the loop runs: up to and including the first one that asks to close.\<close>

fun entered :: "frame list \<Rightarrow> frame list" where
  "entered [] = []"
| "entered (f # fs) = f # (if closes f then [] else entered fs)"

text \<open>The calls of \<open>main\<close> before the render loop, when the window and the loader are there.\<close>

definition startup_calls :: "env \<Rightarrow> call list" where
  "startup_calls e =
     [glfwInit,
      glfwWindowHint GLFW_CONTEXT_VERSION_MAJOR (Value 3),
      glfwWindowHint GLFW_CONTEXT_VERSION_MINOR (Value 3),
      glfwWindowHint GLFW_OPENGL_PROFILE GLFW_OPENGL_CORE_PROFILE,
      glfwCreateWindow 800 600 ''LearnOpenGL'',
      glfwMakeContextCurrent (glfwCreateWindow_result e),
      glfwSetFramebufferSizeCallback (glfwCreateWindow_result e),
      gladLoadGLLoader,
      glCreateShader GL_VERTEX_SHADER,
      glShaderSource (vertexShader_name e) 1 vertexShaderSource,
      glCompileShader (vertexShader_name e),
      glGetShaderiv (vertexShader_name e) GL_COMPILE_STATUS] @
     (if vertex_compile_status e = 0
      then [glGetShaderInfoLog (vertexShader_name e) 512,
            cout_endl (''ERROR::SHADER::VERTEX::COMPILATION_FAILED\<newline>'' @ vertex_infoLog e)]
      else []) @
     [glCreateShader GL_FRAGMENT_SHADER,
      glShaderSource (fragmentShader_name e) 1 fragmentShaderSource,
      glCompileShader (fragmentShader_name e),
      glGetShaderiv (fragmentShader_name e) GL_COMPILE_STATUS] @
     (if fragment_compile_status e = 0
      then [glGetShaderInfoLog (fragmentShader_name e) 512,
            cout_endl (''ERROR::SHADER::FRAGMENT::COMPILATION_FAILED\<newline>'' @ fragment_infoLog e)]
      else []) @
     [glCreateProgram,
      glAttachShader (shaderProgram_name e) (vertexShader_name e),
      glAttachShader (shaderProgram_name e) (fragmentShader_name e),
      glLinkProgram (shaderProgram_name e),
      glGetProgramiv (shaderProgram_name e) GL_LINK_STATUS] @
     (if link_status e = 0
      then [glGetProgramInfoLog (shaderProgram_name e) 512,
            cout_endl (''ERROR::SHADER::PROGRAM::LINKING_FAILED\<newline>'' @ program_infoLog e)]
      else []) @
     [glUseProgram (shaderProgram_name e),
      glDeleteShader (vertexShader_name e),
      glDeleteShader (fragmentShader_name e),
      glGenBuffers 1,
      glBindBuffer GL_ARRAY_BUFFER (VBO_name e),
      glBufferData GL_ARRAY_BUFFER 36 vertices GL_STATIC_DRAW,
      glGenVertexArrays 1,
      glBindVertexArray (VAO_name e),
      glVertexAttribPointer 0 3 GL_FLOAT GL_FALSE 12 0,
      glEnableVertexAttribArray 0,
      glBindBuffer GL_ARRAY_BUFFER 0,
      glBindVertexArray 0]"

text \<open>The calls of \<open>main\<close> after the render loop.\<close>

definition shutdown_calls :: "env \<Rightarrow> call list" where
  "shutdown_calls e =
     [glDeleteVertexArrays 1 (VAO_name e), glDeleteBuffers 1 (VBO_name e),
      glDeleteProgram (shaderProgram_name e), glfwTerminate]"

text \<open>The calls of the whole render loop on a script of frames.\<close>

definition loop_calls :: "GLFWwindow_ptr \<Rightarrow> GLuint \<Rightarrow> GLuint \<Rightarrow> frame list \<Rightarrow> call list" where
  "loop_calls window shaderProgram VAO fs =
     concat (map (\<lambda>f. glfwWindowShouldClose window # frame_calls window shaderProgram VAO f)
                 (entered fs))
     @ [glfwWindowShouldClose window]"

text \<open>A run used for the concrete checks: the second frame has the escape key down.\<close>

definition example_env :: env where
  "example_env =
     \<lparr>glfwInit_result = 1, glfwCreateWindow_result = Window 7, gladLoadGLLoader_result = 1,
      vertexShader_name = 1, vertex_compile_status = 1, vertex_infoLog = [],
      fragmentShader_name = 2, fragment_compile_status = 1, fragment_infoLog = [],
      shaderProgram_name = 3, link_status = 1, program_infoLog = [],
      VBO_name = 1, VAO_name = 1,
      frames = [\<lparr>escape_key = GLFW_RELEASE, events = [FramebufferSize 1024 768]\<rparr>,
                \<lparr>escape_key = GLFW_PRESS, events = []\<rparr>,
                \<lparr>escape_key = GLFW_RELEASE, events = []\<rparr>]\<rparr>"

text \<open>The part of a trace before the first test of the loop condition, and the rest.\<close>

definition before_loop :: "GLFWwindow_ptr \<Rightarrow> call list \<Rightarrow> call list" where
  "before_loop window tr = takeWhile (\<lambda>c. c \<noteq> glfwWindowShouldClose window) tr"

definition from_loop :: "GLFWwindow_ptr \<Rightarrow> call list \<Rightarrow> call list" where
  "from_loop window tr = dropWhile (\<lambda>c. c \<noteq> glfwWindowShouldClose window) tr"

text \<open>The entry points the loop and the resize callback call.\<close>

fun loop_call :: "call \<Rightarrow> bool" where
  "loop_call (glfwWindowShouldClose _) = True"
| "loop_call (glfwGetKey _ _) = True"
| "loop_call (glfwSetWindowShouldClose _ _) = True"
| "loop_call (glClearColor _ _ _ _) = True"
| "loop_call (glClear _) = True"
| "loop_call (glUseProgram _) = True"
| "loop_call (glBindVertexArray _) = True"
| "loop_call (glDrawArrays _ _ _) = True"
| "loop_call (glfwSwapBuffers _) = True"
| "loop_call glfwPollEvents = True"
| "loop_call (glViewport _ _ _ _) = True"
| "loop_call _ = False"

text \<open>The calls that fix the parameters of the window and its context.\<close>

fun window_parameter :: "call \<Rightarrow> bool" where
  "window_parameter (glfwWindowHint _ _) = True"
| "window_parameter (glfwCreateWindow _ _ _) = True"
| "window_parameter _ = False"

text \<open>The calls that create, delete, and use a named object of the driver.\<close>

fun creates :: "call \<Rightarrow> bool" where
  "creates (glCreateShader _) = True"
| "creates glCreateProgram = True"
| "creates (glGenBuffers _) = True"
| "creates (glGenVertexArrays _) = True"
| "creates _ = False"

fun deletes :: "call \<Rightarrow> bool" where
  "deletes (glDeleteShader _) = True"
| "deletes (glDeleteVertexArrays _ _) = True"
| "deletes (glDeleteBuffers _ _) = True"
| "deletes (glDeleteProgram _) = True"
| "deletes _ = False"

fun uses_name :: "call \<Rightarrow> bool" where
  "uses_name (glShaderSource _ _ _) = True"
| "uses_name (glCompileShader _) = True"
| "uses_name (glGetShaderiv _ _) = True"
| "uses_name (glGetShaderInfoLog _ _) = True"
| "uses_name (glAttachShader _ _) = True"
| "uses_name (glLinkProgram _) = True"
| "uses_name (glGetProgramiv _ _) = True"
| "uses_name (glGetProgramInfoLog _ _) = True"
| "uses_name (glUseProgram _) = True"
| "uses_name (glBindBuffer _ _) = True"
| "uses_name (glBindVertexArray _) = True"
| "uses_name _ = False"

fun is_glViewport :: "call \<Rightarrow> bool" where
  "is_glViewport (glViewport _ _ _ _) = True"
| "is_glViewport _ = False"

text \<open>A run in which both shaders fail to compile and the program fails to link.\<close>

definition failing_env :: env where
  "failing_env =
     example_env\<lparr>vertex_compile_status := 0, vertex_infoLog := ''0:1: syntax error'',
                  fragment_compile_status := 0, fragment_infoLog := ''0:2: syntax error'',
                  link_status := 0, program_infoLog := ''link failed''\<rparr>"

section \<open>Properties\<close>

subsection \<open>Auxiliary facts\<close>

lemma trace_calls [simp]: "trace (calls cs w) = trace w @ cs"
  by (simp add: calls_def)

lemma shouldClose_calls [simp]: "shouldClose (calls cs w) = shouldClose w"
  by (simp add: calls_def)

lemma trace_processInput:
  "trace (processInput window key w) =
     trace w @ glfwGetKey window GLFW_KEY_ESCAPE #
       (if key = GLFW_PRESS then [glfwSetWindowShouldClose window True] else [])"
  by (simp add: processInput_def lib_glfwSetWindowShouldClose_def Let_def)

lemma shouldClose_processInput:
  "shouldClose (processInput window key w) = (shouldClose w \<or> key = GLFW_PRESS)"
  by (simp add: processInput_def lib_glfwSetWindowShouldClose_def Let_def)

lemma trace_dispatch_all:
  "trace (fold (dispatch window) evs w) = trace w @ resize_calls evs"
  by (induction evs arbitrary: w rule: resize_calls.induct)
     (simp_all add: framebuffer_size_callback_def)

lemma shouldClose_dispatch_all:
  "shouldClose (fold (dispatch window) evs w) = (shouldClose w \<or> CloseRequest \<in> set evs)"
  by (induction evs arbitrary: w rule: resize_calls.induct)
     (simp_all add: framebuffer_size_callback_def)

lemma trace_loop_body:
  "trace (loop_body window shaderProgram VAO f w) = trace w @ frame_calls window shaderProgram VAO f"
  by (simp add: loop_body_def lib_glfwPollEvents_def trace_dispatch_all trace_processInput
      frame_calls_def)

lemma shouldClose_loop_body:
  "shouldClose (loop_body window shaderProgram VAO f w) = (shouldClose w \<or> closes f)"
  by (simp add: loop_body_def lib_glfwPollEvents_def shouldClose_dispatch_all
      shouldClose_processInput closes_def)

lemma render_loop_closed:
  "shouldClose w \<Longrightarrow>
   render_loop window shaderProgram VAO fs w = (calls [glfwWindowShouldClose window] w, True)"
  by (cases fs) (simp_all add: lib_glfwWindowShouldClose_def)

lemma trace_render_loop:
  "\<not> shouldClose w \<Longrightarrow>
   trace (fst (render_loop window shaderProgram VAO fs w)) =
     trace w @ loop_calls window shaderProgram VAO fs"
proof (induction fs arbitrary: w)
  case Nil
  then show ?case
    by (simp add: lib_glfwWindowShouldClose_def loop_calls_def)
next
  case (Cons f fs)
  let ?w1 = "loop_body window shaderProgram VAO f (calls [glfwWindowShouldClose window] w)"
  have step: "render_loop window shaderProgram VAO (f # fs) w =
              render_loop window shaderProgram VAO fs ?w1"
    using Cons.prems by (simp add: lib_glfwWindowShouldClose_def)
  show ?case
  proof (cases "closes f")
    case True
    then have "shouldClose ?w1"
      by (simp add: shouldClose_loop_body)
    then show ?thesis
      unfolding step by (simp add: render_loop_closed trace_loop_body loop_calls_def True)
  next
    case False
    then have "\<not> shouldClose ?w1"
      using Cons.prems by (simp add: shouldClose_loop_body)
    then show ?thesis
      unfolding step by (simp add: Cons.IH trace_loop_body loop_calls_def False)
  qed
qed

lemma left_render_loop:
  "snd (render_loop window shaderProgram VAO fs w) = (shouldClose w \<or> (\<exists>f \<in> set fs. closes f))"
proof (induction fs arbitrary: w)
  case Nil
  then show ?case
    by (simp add: lib_glfwWindowShouldClose_def)
next
  case (Cons f fs)
  show ?case
    by (auto simp add: lib_glfwWindowShouldClose_def Cons.IH shouldClose_loop_body)
qed

lemma shouldClose_render_loop:
  "shouldClose (fst (render_loop window shaderProgram VAO fs w)) =
     (shouldClose w \<or> (\<exists>f \<in> set fs. closes f))"
proof (induction fs arbitrary: w)
  case Nil
  then show ?case
    by (simp add: lib_glfwWindowShouldClose_def)
next
  case (Cons f fs)
  show ?case
    by (auto simp add: lib_glfwWindowShouldClose_def Cons.IH shouldClose_loop_body)
qed

lemma main_window_failed:
  "glfwCreateWindow_result e = NULL \<Longrightarrow>
   main e =
     (\<lparr>trace = [glfwInit,
                glfwWindowHint GLFW_CONTEXT_VERSION_MAJOR (Value 3),
                glfwWindowHint GLFW_CONTEXT_VERSION_MINOR (Value 3),
                glfwWindowHint GLFW_OPENGL_PROFILE GLFW_OPENGL_CORE_PROFILE,
                glfwCreateWindow 800 600 ''LearnOpenGL'',
                cout_endl ''Failed to create GLFW window'',
                glfwTerminate],
       shouldClose = False\<rparr>, Some (- 1))"
  by (simp add: main_def calls_def initial_def Let_def)

lemma main_loader_failed:
  "glfwCreateWindow_result e \<noteq> NULL \<Longrightarrow> gladLoadGLLoader_result e = 0 \<Longrightarrow>
   main e =
     (\<lparr>trace = [glfwInit,
                glfwWindowHint GLFW_CONTEXT_VERSION_MAJOR (Value 3),
                glfwWindowHint GLFW_CONTEXT_VERSION_MINOR (Value 3),
                glfwWindowHint GLFW_OPENGL_PROFILE GLFW_OPENGL_CORE_PROFILE,
                glfwCreateWindow 800 600 ''LearnOpenGL'',
                glfwMakeContextCurrent (glfwCreateWindow_result e),
                glfwSetFramebufferSizeCallback (glfwCreateWindow_result e),
                gladLoadGLLoader,
                cout_endl ''Failed to initialize GLAD''],
       shouldClose = False\<rparr>, Some (- 1))"
  by (simp add: main_def calls_def initial_def Let_def)

lemma length_vertices: "length vertices * sizeof_float = 36" "3 * sizeof_float = 12"
  by (simp_all add: vertices_def sizeof_float_def)

lemma main_run:
  assumes "glfwCreateWindow_result e \<noteq> NULL" and "gladLoadGLLoader_result e \<noteq> 0"
  shows "trace (fst (main e)) =
           startup_calls e
           @ loop_calls (glfwCreateWindow_result e) (shaderProgram_name e) (VAO_name e) (frames e)
           @ (if \<exists>f \<in> set (frames e). closes f then shutdown_calls e else [])"
    and "snd (main e) = (if \<exists>f \<in> set (frames e). closes f then Some 0 else None)"
    and "shouldClose (fst (main e)) = (\<exists>f \<in> set (frames e). closes f)"
  using assms
  by (simp_all add: main_def Let_def split_beta length_vertices trace_render_loop
      left_render_loop shouldClose_render_loop initial_def startup_calls_def shutdown_calls_def)

lemma resize_calls_viewport:
  "c \<in> set (resize_calls evs) \<Longrightarrow> is_glViewport c"
  by (induction evs rule: resize_calls.induct) auto

lemma is_glViewport_loop_call: "is_glViewport c \<Longrightarrow> loop_call c"
  by (cases c) simp_all

lemma frame_calls_loop_call:
  "c \<in> set (frame_calls window shaderProgram VAO f) \<Longrightarrow> loop_call c"
  by (auto simp add: frame_calls_def dest: resize_calls_viewport is_glViewport_loop_call
      split: if_splits)

lemma loop_calls_loop_call:
  "c \<in> set (loop_calls window shaderProgram VAO fs) \<Longrightarrow> loop_call c"
  by (auto simp add: loop_calls_def dest!: frame_calls_loop_call split: if_splits)

lemma filter_loop_calls:
  assumes "\<And>c. loop_call c \<Longrightarrow> \<not> Q c"
  shows "filter Q (loop_calls window shaderProgram VAO fs) = []"
  using assms loop_calls_loop_call by (auto simp add: filter_empty_conv)

lemma loop_calls_first:
  "\<exists>rest. loop_calls window shaderProgram VAO fs = glfwWindowShouldClose window # rest"
  by (cases fs) (simp_all add: loop_calls_def)

lemma startup_calls_no_test:
  "glfwWindowShouldClose window \<notin> set (startup_calls e)"
  by (simp add: startup_calls_def)

lemma takeWhile_until:
  "a \<notin> set xs \<Longrightarrow> takeWhile (\<lambda>c. c \<noteq> a) (xs @ a # ys) = xs"
  by (induction xs) auto

lemma dropWhile_until:
  "a \<notin> set xs \<Longrightarrow> dropWhile (\<lambda>c. c \<noteq> a) (xs @ a # ys) = a # ys"
  by (induction xs) auto

lemma before_loop_main:
  assumes "glfwCreateWindow_result e \<noteq> NULL" and "gladLoadGLLoader_result e \<noteq> 0"
  shows "before_loop (glfwCreateWindow_result e) (trace (fst (main e))) = startup_calls e"
proof -
  obtain rest where
    "loop_calls (glfwCreateWindow_result e) (shaderProgram_name e) (VAO_name e) (frames e) =
       glfwWindowShouldClose (glfwCreateWindow_result e) # rest"
    using loop_calls_first by blast
  then show ?thesis
    using startup_calls_no_test [of "glfwCreateWindow_result e" e]
    by (simp add: main_run(1) [OF assms] before_loop_def takeWhile_until)
qed

lemma from_loop_main:
  assumes "glfwCreateWindow_result e \<noteq> NULL" and "gladLoadGLLoader_result e \<noteq> 0"
  shows "from_loop (glfwCreateWindow_result e) (trace (fst (main e))) =
           loop_calls (glfwCreateWindow_result e) (shaderProgram_name e) (VAO_name e) (frames e)
           @ (if \<exists>f \<in> set (frames e). closes f then shutdown_calls e else [])"
proof -
  obtain rest where
    "loop_calls (glfwCreateWindow_result e) (shaderProgram_name e) (VAO_name e) (frames e) =
       glfwWindowShouldClose (glfwCreateWindow_result e) # rest"
    using loop_calls_first by blast
  then show ?thesis
    using startup_calls_no_test [of "glfwCreateWindow_result e" e]
    by (simp add: main_run(1) [OF assms] from_loop_def dropWhile_until)
qed

lemma not_window_parameter: "loop_call c \<Longrightarrow> \<not> window_parameter c"
  by (cases c) simp_all

lemma not_creates: "loop_call c \<Longrightarrow> \<not> creates c"
  by (cases c) simp_all

lemma not_deletes: "loop_call c \<Longrightarrow> \<not> deletes c"
  by (cases c) simp_all

lemma filter_viewport_resize_calls: "filter is_glViewport (resize_calls evs) = resize_calls evs"
  by (induction evs rule: resize_calls.induct) simp_all

lemma filter_uses_name_resize_calls: "filter uses_name (resize_calls evs) = []"
  by (induction evs rule: resize_calls.induct) simp_all

lemma filter_viewport_loop_calls:
  "filter is_glViewport (loop_calls window shaderProgram VAO fs) =
     concat (map (\<lambda>f. resize_calls (events f)) (entered fs))"
  by (simp add: loop_calls_def filter_concat comp_def frame_calls_def
      filter_viewport_resize_calls)

lemma filter_uses_name_loop_calls:
  "filter uses_name (loop_calls window shaderProgram VAO fs) =
     concat (map (\<lambda>f. [glUseProgram shaderProgram, glBindVertexArray VAO]) (entered fs))"
  by (simp add: loop_calls_def filter_concat comp_def frame_calls_def
      filter_uses_name_resize_calls)

lemma closes_entered: "(\<exists>f \<in> set (entered fs). closes f) = (\<exists>f \<in> set fs. closes f)"
  by (induction fs) auto

lemma main_tail:
  assumes "glfwCreateWindow_result e \<noteq> NULL" and "gladLoadGLLoader_result e \<noteq> 0"
    and "\<exists>f \<in> set (frames e). closes f"
  shows "\<exists>earlier. trace (fst (main e)) =
            earlier @
            [glfwWindowShouldClose (glfwCreateWindow_result e),
             glDeleteVertexArrays 1 (VAO_name e), glDeleteBuffers 1 (VBO_name e),
             glDeleteProgram (shaderProgram_name e), glfwTerminate]"
proof -
  have "trace (fst (main e)) =
          (startup_calls e @
           concat (map (\<lambda>f. glfwWindowShouldClose (glfwCreateWindow_result e) #
                              frame_calls (glfwCreateWindow_result e) (shaderProgram_name e)
                                (VAO_name e) f)
                       (entered (frames e)))) @
          [glfwWindowShouldClose (glfwCreateWindow_result e),
           glDeleteVertexArrays 1 (VAO_name e), glDeleteBuffers 1 (VBO_name e),
           glDeleteProgram (shaderProgram_name e), glfwTerminate]"
    using assms(3)
    by (simp add: main_run(1) [OF assms(1,2)] loop_calls_def shutdown_calls_def)
  then show ?thesis
    by (rule exI)
qed

lemma filter_creates_startup:
  "filter creates (startup_calls e) =
      [glCreateShader GL_VERTEX_SHADER, glCreateShader GL_FRAGMENT_SHADER,
       glCreateProgram, glGenBuffers 1, glGenVertexArrays 1]"
  by (simp add: startup_calls_def)

lemma filter_deletes_startup:
  "filter deletes (startup_calls e) =
      [glDeleteShader (vertexShader_name e), glDeleteShader (fragmentShader_name e)]"
  by (simp add: startup_calls_def)


lemma example_env_simps:
  "glfwCreateWindow_result example_env = Window 7"
  "gladLoadGLLoader_result example_env = 1"
  "vertexShader_name example_env = 1"
  "fragmentShader_name example_env = 2"
  "shaderProgram_name example_env = 3"
  "VBO_name example_env = 1"
  "VAO_name example_env = 1"
  "frames example_env =
     [\<lparr>escape_key = GLFW_RELEASE, events = [FramebufferSize 1024 768]\<rparr>,
      \<lparr>escape_key = GLFW_PRESS, events = []\<rparr>,
      \<lparr>escape_key = GLFW_RELEASE, events = []\<rparr>]"
  by (simp_all add: example_env_def)

lemma startup_calls_no_terminate: "glfwTerminate \<notin> set (startup_calls e)"
  by (simp add: startup_calls_def)

lemma loop_calls_no_terminate:
  "glfwTerminate \<notin> set (loop_calls window shaderProgram VAO fs)"
  using loop_calls_loop_call [of glfwTerminate] by auto

lemma filter_viewport_startup: "filter is_glViewport (startup_calls e) = []"
  by (simp add: startup_calls_def)

lemma filter_parameter_startup:
  "filter window_parameter (startup_calls e) =
     [glfwWindowHint GLFW_CONTEXT_VERSION_MAJOR (Value 3),
      glfwWindowHint GLFW_CONTEXT_VERSION_MINOR (Value 3),
      glfwWindowHint GLFW_OPENGL_PROFILE GLFW_OPENGL_CORE_PROFILE,
      glfwCreateWindow 800 600 ''LearnOpenGL'']"
  by (simp add: startup_calls_def)

lemma take5_startup:
  "take 5 (startup_calls e @ rest) =
     [glfwInit,
      glfwWindowHint GLFW_CONTEXT_VERSION_MAJOR (Value 3),
      glfwWindowHint GLFW_CONTEXT_VERSION_MINOR (Value 3),
      glfwWindowHint GLFW_OPENGL_PROFILE GLFW_OPENGL_CORE_PROFILE,
      glfwCreateWindow 800 600 ''LearnOpenGL'']"
  by (simp add: startup_calls_def)

lemma registered_startup:
  "glfwSetFramebufferSizeCallback (glfwCreateWindow_result e) \<in> set (startup_calls e)"
  by (simp add: startup_calls_def)

lemma failing_env_simps:
  "glfwCreateWindow_result failing_env = Window 7"
  "gladLoadGLLoader_result failing_env = 1"
  "vertex_compile_status failing_env = 0"
  "vertex_infoLog failing_env = ''0:1: syntax error''"
  "fragment_compile_status failing_env = 0"
  "fragment_infoLog failing_env = ''0:2: syntax error''"
  "link_status failing_env = 0"
  "program_infoLog failing_env = ''link failed''"
  "frames failing_env = frames example_env"
  by (simp_all add: failing_env_def example_env_def)

lemma ends_with_refl: "\<exists>p. zs = p @ zs"
  by simp

lemma ends_with_append: "\<exists>p. ys = p @ zs \<Longrightarrow> \<exists>p. xs @ ys = p @ zs"
  by (metis append.assoc)

lemma ends_with_Cons: "\<exists>p. ys = p @ zs \<Longrightarrow> \<exists>p. x # ys = p @ zs"
  by (metis append_Cons)

lemma startup_ends_with_buffers:
  "\<exists>shaders. startup_calls e =
            shaders @
            [glGenBuffers 1,
             glBindBuffer GL_ARRAY_BUFFER (VBO_name e),
             glBufferData GL_ARRAY_BUFFER 36 vertices GL_STATIC_DRAW,
             glGenVertexArrays 1,
             glBindVertexArray (VAO_name e),
             glVertexAttribPointer 0 3 GL_FLOAT GL_FALSE 12 0,
             glEnableVertexAttribArray 0,
             glBindBuffer GL_ARRAY_BUFFER 0,
             glBindVertexArray 0]"
  unfolding startup_calls_def
  by (intro ends_with_refl ends_with_append ends_with_Cons)

lemma startup_logs:
  "vertex_compile_status e = 0 \<Longrightarrow>
     cout_endl (''ERROR::SHADER::VERTEX::COMPILATION_FAILED\<newline>'' @ vertex_infoLog e)
       \<in> set (startup_calls e)"
  "fragment_compile_status e = 0 \<Longrightarrow>
     cout_endl (''ERROR::SHADER::FRAGMENT::COMPILATION_FAILED\<newline>'' @ fragment_infoLog e)
       \<in> set (startup_calls e)"
  "link_status e = 0 \<Longrightarrow>
     cout_endl (''ERROR::SHADER::PROGRAM::LINKING_FAILED\<newline>'' @ program_infoLog e)
       \<in> set (startup_calls e)"
  unfolding startup_calls_def
  by (simp_all only: set_append set_simps Un_iff insert_iff if_True simp_thms)


lemma startup_ends_with_link:
  "\<exists>earlier. startup_calls e =
     earlier @
     [glLinkProgram (shaderProgram_name e),
      glGetProgramiv (shaderProgram_name e) GL_LINK_STATUS] @
     (if link_status e = 0
      then [glGetProgramInfoLog (shaderProgram_name e) 512,
            cout_endl (''ERROR::SHADER::PROGRAM::LINKING_FAILED\<newline>'' @ program_infoLog e)]
      else []) @
     [glUseProgram (shaderProgram_name e),
      glDeleteShader (vertexShader_name e),
      glDeleteShader (fragmentShader_name e),
      glGenBuffers 1,
      glBindBuffer GL_ARRAY_BUFFER (VBO_name e),
      glBufferData GL_ARRAY_BUFFER 36 vertices GL_STATIC_DRAW,
      glGenVertexArrays 1,
      glBindVertexArray (VAO_name e),
      glVertexAttribPointer 0 3 GL_FLOAT GL_FALSE 12 0,
      glEnableVertexAttribArray 0,
      glBindBuffer GL_ARRAY_BUFFER 0,
      glBindVertexArray 0]"
  unfolding startup_calls_def append.simps
  by (intro ends_with_refl ends_with_append ends_with_Cons)

lemma processInput_eq:
  "processInput window key w =
     (if key = GLFW_PRESS
      then w\<lparr>trace := trace w @ [glfwGetKey window GLFW_KEY_ESCAPE,
                                  glfwSetWindowShouldClose window True],
             shouldClose := True\<rparr>
      else w\<lparr>trace := trace w @ [glfwGetKey window GLFW_KEY_ESCAPE]\<rparr>)"
  by (simp add: processInput_def lib_glfwSetWindowShouldClose_def calls_def Let_def)

lemma render_loop_open_Nil:
  "\<not> shouldClose w \<Longrightarrow>
   render_loop window shaderProgram VAO [] w = (calls [glfwWindowShouldClose window] w, False)"
  by (simp add: lib_glfwWindowShouldClose_def)

lemma render_loop_open_Cons:
  "\<not> shouldClose w \<Longrightarrow>
   render_loop window shaderProgram VAO (f # fs) w =
     render_loop window shaderProgram VAO fs
       (loop_body window shaderProgram VAO f (calls [glfwWindowShouldClose window] w))"
  by (simp add: lib_glfwWindowShouldClose_def)

lemma filter_uses_name_from_loop:
  assumes "glfwCreateWindow_result e \<noteq> NULL" and "gladLoadGLLoader_result e \<noteq> 0"
  shows "filter uses_name (from_loop (glfwCreateWindow_result e) (trace (fst (main e)))) =
           concat (map (\<lambda>f. [glUseProgram (shaderProgram_name e), glBindVertexArray (VAO_name e)])
                       (entered (frames e)))"
  by (simp add: from_loop_main [OF assms] filter_uses_name_loop_calls shutdown_calls_def)

lemma filter_creates_from_loop:
  assumes "glfwCreateWindow_result e \<noteq> NULL" and "gladLoadGLLoader_result e \<noteq> 0"
  shows "filter creates (from_loop (glfwCreateWindow_result e) (trace (fst (main e)))) = []"
  by (simp add: from_loop_main [OF assms] filter_loop_calls [OF not_creates] shutdown_calls_def)

lemma filter_deletes_from_loop:
  assumes "glfwCreateWindow_result e \<noteq> NULL" and "gladLoadGLLoader_result e \<noteq> 0"
  shows "filter deletes (from_loop (glfwCreateWindow_result e) (trace (fst (main e)))) =
           (if \<exists>f \<in> set (frames e). closes f
            then [glDeleteVertexArrays 1 (VAO_name e), glDeleteBuffers 1 (VBO_name e),
                  glDeleteProgram (shaderProgram_name e)]
            else [])"
  by (simp add: from_loop_main [OF assms] filter_loop_calls [OF not_deletes] shutdown_calls_def)

lemma running_env_simps:
  "glfwCreateWindow_result (example_env\<lparr>frames := []\<rparr>) = Window 7"
  "gladLoadGLLoader_result (example_env\<lparr>frames := []\<rparr>) = 1"
  "frames (example_env\<lparr>frames := []\<rparr>) = []"
  by (simp_all add: example_env_simps)

subsection \<open>The render loop\<close>

text \<open>
  C1. In a run that gets its window and its function pointers, everything from the first
  test of the loop condition on is, for each frame the loop enters, the same sequence:
  the test of the close flag, the escape-key poll (followed by the close request when the
  key is down), the clear colour \<open>(0.2, 0.3, 0.3, 1.0)\<close> and the clear of the colour
  buffer, the draw of three vertices as triangles with the linked program and the vertex
  array, the buffer swap, and the event poll with the resize callbacks it runs. The clear
  colour is the same constant in every iteration.
\<close>

theorem render_loop_iterations:
  assumes "glfwCreateWindow_result e \<noteq> NULL" and "gladLoadGLLoader_result e \<noteq> 0"
  shows "from_loop (glfwCreateWindow_result e) (trace (fst (main e))) =
           concat (map (\<lambda>f.
               [glfwWindowShouldClose (glfwCreateWindow_result e),
                glfwGetKey (glfwCreateWindow_result e) GLFW_KEY_ESCAPE] @
               (if escape_key f = GLFW_PRESS
                then [glfwSetWindowShouldClose (glfwCreateWindow_result e) True] else []) @
               [glClearColor 0.2 0.3 0.3 1.0,
                glClear GL_COLOR_BUFFER_BIT,
                glUseProgram (shaderProgram_name e),
                glBindVertexArray (VAO_name e),
                glDrawArrays GL_TRIANGLES 0 3,
                glfwSwapBuffers (glfwCreateWindow_result e),
                glfwPollEvents] @
               resize_calls (events f))
             (entered (frames e)))
           @ [glfwWindowShouldClose (glfwCreateWindow_result e)]
           @ (if \<exists>f \<in> set (frames e). closes f
              then [glDeleteVertexArrays 1 (VAO_name e), glDeleteBuffers 1 (VBO_name e),
                    glDeleteProgram (shaderProgram_name e), glfwTerminate]
              else [])"
  by (simp add: from_loop_main [OF assms] loop_calls_def frame_calls_def shutdown_calls_def)

theorem render_loop_iterations_witness:
  "glfwCreateWindow_result example_env \<noteq> NULL \<and> gladLoadGLLoader_result example_env \<noteq> 0 \<and>
   from_loop (Window 7) (trace (fst (main example_env))) =
     [glfwWindowShouldClose (Window 7),
      glfwGetKey (Window 7) GLFW_KEY_ESCAPE,
      glClearColor 0.2 0.3 0.3 1.0, glClear GL_COLOR_BUFFER_BIT,
      glUseProgram 3, glBindVertexArray 1, glDrawArrays GL_TRIANGLES 0 3,
      glfwSwapBuffers (Window 7), glfwPollEvents, glViewport 0 0 1024 768,
      glfwWindowShouldClose (Window 7),
      glfwGetKey (Window 7) GLFW_KEY_ESCAPE, glfwSetWindowShouldClose (Window 7) True,
      glClearColor 0.2 0.3 0.3 1.0, glClear GL_COLOR_BUFFER_BIT,
      glUseProgram 3, glBindVertexArray 1, glDrawArrays GL_TRIANGLES 0 3,
      glfwSwapBuffers (Window 7), glfwPollEvents,
      glfwWindowShouldClose (Window 7),
      glDeleteVertexArrays 1 1, glDeleteBuffers 1 1, glDeleteProgram 3, glfwTerminate]"
proof -
  have h: "glfwCreateWindow_result example_env \<noteq> NULL"
    "gladLoadGLLoader_result example_env \<noteq> 0"
    by (simp_all add: example_env_simps)
  show ?thesis
    using h render_loop_iterations [OF h]
    by (simp add: example_env_simps closes_def)
qed

subsection \<open>Failure handling\<close>

text \<open>
  C2. When \<open>glfwCreateWindow\<close> returns the null pointer, and when the window is there but
  \<open>gladLoadGLLoader\<close> returns zero, the program prints its diagnostic line and returns
  \<open>-1\<close>, which is not zero; the calls of the run are the ones listed, so no shader is
  created and the loop condition is never tested.
\<close>

theorem abort_without_window_or_loader:
  "(glfwCreateWindow_result e = NULL \<longrightarrow>
      main e =
        (\<lparr>trace = [glfwInit,
                   glfwWindowHint GLFW_CONTEXT_VERSION_MAJOR (Value 3),
                   glfwWindowHint GLFW_CONTEXT_VERSION_MINOR (Value 3),
                   glfwWindowHint GLFW_OPENGL_PROFILE GLFW_OPENGL_CORE_PROFILE,
                   glfwCreateWindow 800 600 ''LearnOpenGL'',
                   cout_endl ''Failed to create GLFW window'',
                   glfwTerminate],
          shouldClose = False\<rparr>, Some (- 1))) \<and>
   (glfwCreateWindow_result e \<noteq> NULL \<and> gladLoadGLLoader_result e = 0 \<longrightarrow>
      main e =
        (\<lparr>trace = [glfwInit,
                   glfwWindowHint GLFW_CONTEXT_VERSION_MAJOR (Value 3),
                   glfwWindowHint GLFW_CONTEXT_VERSION_MINOR (Value 3),
                   glfwWindowHint GLFW_OPENGL_PROFILE GLFW_OPENGL_CORE_PROFILE,
                   glfwCreateWindow 800 600 ''LearnOpenGL'',
                   glfwMakeContextCurrent (glfwCreateWindow_result e),
                   glfwSetFramebufferSizeCallback (glfwCreateWindow_result e),
                   gladLoadGLLoader,
                   cout_endl ''Failed to initialize GLAD''],
          shouldClose = False\<rparr>, Some (- 1))) \<and>
   (- 1 :: c_int) \<noteq> 0"
  by (simp add: main_window_failed main_loader_failed)

theorem abort_without_window_or_loader_witness:
  "glfwCreateWindow_result (example_env\<lparr>glfwCreateWindow_result := NULL\<rparr>) = NULL \<and>
   snd (main (example_env\<lparr>glfwCreateWindow_result := NULL\<rparr>)) = Some (- 1) \<and>
   cout_endl ''Failed to create GLFW window''
     \<in> set (trace (fst (main (example_env\<lparr>glfwCreateWindow_result := NULL\<rparr>)))) \<and>
   glfwCreateWindow_result (example_env\<lparr>gladLoadGLLoader_result := 0\<rparr>) \<noteq> NULL \<and>
   gladLoadGLLoader_result (example_env\<lparr>gladLoadGLLoader_result := 0\<rparr>) = 0 \<and>
   snd (main (example_env\<lparr>gladLoadGLLoader_result := 0\<rparr>)) = Some (- 1) \<and>
   cout_endl ''Failed to initialize GLAD''
     \<in> set (trace (fst (main (example_env\<lparr>gladLoadGLLoader_result := 0\<rparr>))))"
  using abort_without_window_or_loader [of "example_env\<lparr>glfwCreateWindow_result := NULL\<rparr>"]
    abort_without_window_or_loader [of "example_env\<lparr>gladLoadGLLoader_result := 0\<rparr>"]
  by (simp add: example_env_simps)

text \<open>
  C3. With the window and the function pointers there, a compile status or link status
  of zero makes the program fetch the info log and print it after its error heading, and
  the run goes on all the same: the calls before the loop are \<open>startup_calls\<close>, which
  hold the three buffer calls and the vertex-array calls after the shader part, the loop
  condition is tested next, and the value \<open>-1\<close> is not returned.
\<close>

theorem shader_failure_logged_not_fatal:
  assumes "glfwCreateWindow_result e \<noteq> NULL" and "gladLoadGLLoader_result e \<noteq> 0"
  shows "(\<exists>rest. trace (fst (main e)) =
            startup_calls e @ glfwWindowShouldClose (glfwCreateWindow_result e) # rest) \<and>
         (vertex_compile_status e = 0 \<longrightarrow>
            cout_endl (''ERROR::SHADER::VERTEX::COMPILATION_FAILED\<newline>'' @ vertex_infoLog e)
              \<in> set (startup_calls e)) \<and>
         (fragment_compile_status e = 0 \<longrightarrow>
            cout_endl (''ERROR::SHADER::FRAGMENT::COMPILATION_FAILED\<newline>'' @ fragment_infoLog e)
              \<in> set (startup_calls e)) \<and>
         (link_status e = 0 \<longrightarrow>
            cout_endl (''ERROR::SHADER::PROGRAM::LINKING_FAILED\<newline>'' @ program_infoLog e)
              \<in> set (startup_calls e)) \<and>
         (\<exists>shaders. startup_calls e =
            shaders @
            [glGenBuffers 1,
             glBindBuffer GL_ARRAY_BUFFER (VBO_name e),
             glBufferData GL_ARRAY_BUFFER 36 vertices GL_STATIC_DRAW,
             glGenVertexArrays 1,
             glBindVertexArray (VAO_name e),
             glVertexAttribPointer 0 3 GL_FLOAT GL_FALSE 12 0,
             glEnableVertexAttribArray 0,
             glBindBuffer GL_ARRAY_BUFFER 0,
             glBindVertexArray 0]) \<and>
         snd (main e) \<noteq> Some (- 1)"
proof -
  obtain rest where
    "loop_calls (glfwCreateWindow_result e) (shaderProgram_name e) (VAO_name e) (frames e) =
       glfwWindowShouldClose (glfwCreateWindow_result e) # rest"
    using loop_calls_first by blast
  then have reached: "\<exists>rest. trace (fst (main e)) =
      startup_calls e @ glfwWindowShouldClose (glfwCreateWindow_result e) # rest"
    by (simp add: main_run(1) [OF assms])
  have "snd (main e) \<noteq> Some (- 1)"
    by (simp add: main_run(2) [OF assms])
  with reached startup_logs [of e] startup_ends_with_buffers [of e] show ?thesis
    by blast
qed

theorem shader_failure_logged_not_fatal_witness:
  "glfwCreateWindow_result failing_env \<noteq> NULL \<and> gladLoadGLLoader_result failing_env \<noteq> 0 \<and>
   vertex_compile_status failing_env = 0 \<and> fragment_compile_status failing_env = 0 \<and>
   link_status failing_env = 0 \<and>
   cout_endl ''ERROR::SHADER::VERTEX::COMPILATION_FAILED\<newline>0:1: syntax error''
     \<in> set (startup_calls failing_env) \<and>
   cout_endl ''ERROR::SHADER::FRAGMENT::COMPILATION_FAILED\<newline>0:2: syntax error''
     \<in> set (startup_calls failing_env) \<and>
   cout_endl ''ERROR::SHADER::PROGRAM::LINKING_FAILED\<newline>link failed''
     \<in> set (startup_calls failing_env) \<and>
   snd (main failing_env) \<noteq> Some (- 1)"
proof -
  have h: "glfwCreateWindow_result failing_env \<noteq> NULL"
    "gladLoadGLLoader_result failing_env \<noteq> 0"
    by (simp_all add: failing_env_simps)
  show ?thesis
    using h shader_failure_logged_not_fatal [OF h]
    by (simp add: failing_env_simps)
qed

subsection \<open>Lifetime of the driver's objects\<close>

text \<open>
  C4, as the code has it. In a run that reaches the render loop, the calls before the
  first test of the loop condition are \<open>startup_calls\<close>. They end with the link of the
  program, the query of its link status (and the log when it is zero),
  \<open>glUseProgram\<close>, the deletion of the two shader objects, and the buffer and
  vertex-array setup: the shader objects are deleted once each, after linking and before
  the buffer is generated. The two shader objects, the program, the buffer and the vertex
  array are each created once, before the loop, and nothing is created later. From the
  loop on, the only calls that are given a name are \<open>glUseProgram\<close> with the program
  name and \<open>glBindVertexArray\<close> with the vertex-array name, once per frame entered, with
  the values they got at creation; neither the shader names nor the buffer name is used
  in a frame. When the run leaves the loop, the vertex array, the buffer and the program
  are deleted once each, right after the last test of the loop condition and before
  \<open>glfwTerminate\<close>; while it has not left the loop, nothing is deleted from the loop on.
\<close>

theorem object_lifetimes:
  assumes "glfwCreateWindow_result e \<noteq> NULL" and "gladLoadGLLoader_result e \<noteq> 0"
  shows "before_loop (glfwCreateWindow_result e) (trace (fst (main e))) = startup_calls e \<and>
         (\<exists>earlier. before_loop (glfwCreateWindow_result e) (trace (fst (main e))) =
            earlier @
            [glLinkProgram (shaderProgram_name e),
             glGetProgramiv (shaderProgram_name e) GL_LINK_STATUS] @
            (if link_status e = 0
             then [glGetProgramInfoLog (shaderProgram_name e) 512,
                   cout_endl (''ERROR::SHADER::PROGRAM::LINKING_FAILED\<newline>''
                              @ program_infoLog e)]
             else []) @
            [glUseProgram (shaderProgram_name e),
             glDeleteShader (vertexShader_name e),
             glDeleteShader (fragmentShader_name e),
             glGenBuffers 1,
             glBindBuffer GL_ARRAY_BUFFER (VBO_name e),
             glBufferData GL_ARRAY_BUFFER 36 vertices GL_STATIC_DRAW,
             glGenVertexArrays 1,
             glBindVertexArray (VAO_name e),
             glVertexAttribPointer 0 3 GL_FLOAT GL_FALSE 12 0,
             glEnableVertexAttribArray 0,
             glBindBuffer GL_ARRAY_BUFFER 0,
             glBindVertexArray 0]) \<and>
         filter creates (before_loop (glfwCreateWindow_result e) (trace (fst (main e)))) =
           [glCreateShader GL_VERTEX_SHADER, glCreateShader GL_FRAGMENT_SHADER,
            glCreateProgram, glGenBuffers 1, glGenVertexArrays 1] \<and>
         filter creates (from_loop (glfwCreateWindow_result e) (trace (fst (main e)))) = [] \<and>
         filter deletes (before_loop (glfwCreateWindow_result e) (trace (fst (main e)))) =
           [glDeleteShader (vertexShader_name e), glDeleteShader (fragmentShader_name e)] \<and>
         filter uses_name (from_loop (glfwCreateWindow_result e) (trace (fst (main e)))) =
           concat (map (\<lambda>f. [glUseProgram (shaderProgram_name e), glBindVertexArray (VAO_name e)])
                       (entered (frames e))) \<and>
         ((\<exists>f \<in> set (frames e). closes f) \<longrightarrow>
            filter deletes (from_loop (glfwCreateWindow_result e) (trace (fst (main e)))) =
              [glDeleteVertexArrays 1 (VAO_name e), glDeleteBuffers 1 (VBO_name e),
               glDeleteProgram (shaderProgram_name e)] \<and>
            (\<exists>earlier. trace (fst (main e)) =
               earlier @
               [glfwWindowShouldClose (glfwCreateWindow_result e),
                glDeleteVertexArrays 1 (VAO_name e), glDeleteBuffers 1 (VBO_name e),
                glDeleteProgram (shaderProgram_name e), glfwTerminate])) \<and>
         (\<not> (\<exists>f \<in> set (frames e). closes f) \<longrightarrow>
            filter deletes (from_loop (glfwCreateWindow_result e) (trace (fst (main e)))) = [])"
proof (intro conjI impI)
  show "before_loop (glfwCreateWindow_result e) (trace (fst (main e))) = startup_calls e"
    by (rule before_loop_main [OF assms])
  show "\<exists>earlier. before_loop (glfwCreateWindow_result e) (trace (fst (main e))) =
            earlier @
            [glLinkProgram (shaderProgram_name e),
             glGetProgramiv (shaderProgram_name e) GL_LINK_STATUS] @
            (if link_status e = 0
             then [glGetProgramInfoLog (shaderProgram_name e) 512,
                   cout_endl (''ERROR::SHADER::PROGRAM::LINKING_FAILED\<newline>''
                              @ program_infoLog e)]
             else []) @
            [glUseProgram (shaderProgram_name e),
             glDeleteShader (vertexShader_name e),
             glDeleteShader (fragmentShader_name e),
             glGenBuffers 1,
             glBindBuffer GL_ARRAY_BUFFER (VBO_name e),
             glBufferData GL_ARRAY_BUFFER 36 vertices GL_STATIC_DRAW,
             glGenVertexArrays 1,
             glBindVertexArray (VAO_name e),
             glVertexAttribPointer 0 3 GL_FLOAT GL_FALSE 12 0,
             glEnableVertexAttribArray 0,
             glBindBuffer GL_ARRAY_BUFFER 0,
             glBindVertexArray 0]"
    unfolding before_loop_main [OF assms] by (rule startup_ends_with_link)
  show "filter creates (before_loop (glfwCreateWindow_result e) (trace (fst (main e)))) =
           [glCreateShader GL_VERTEX_SHADER, glCreateShader GL_FRAGMENT_SHADER,
            glCreateProgram, glGenBuffers 1, glGenVertexArrays 1]"
    by (simp only: before_loop_main [OF assms] filter_creates_startup)
  show "filter creates (from_loop (glfwCreateWindow_result e) (trace (fst (main e)))) = []"
    by (rule filter_creates_from_loop [OF assms])
  show "filter deletes (before_loop (glfwCreateWindow_result e) (trace (fst (main e)))) =
           [glDeleteShader (vertexShader_name e), glDeleteShader (fragmentShader_name e)]"
    by (simp only: before_loop_main [OF assms] filter_deletes_startup)
  show "filter uses_name (from_loop (glfwCreateWindow_result e) (trace (fst (main e)))) =
           concat (map (\<lambda>f. [glUseProgram (shaderProgram_name e), glBindVertexArray (VAO_name e)])
                       (entered (frames e)))"
    by (rule filter_uses_name_from_loop [OF assms])
next
  assume left: "\<exists>f \<in> set (frames e). closes f"
  then show "filter deletes (from_loop (glfwCreateWindow_result e) (trace (fst (main e)))) =
              [glDeleteVertexArrays 1 (VAO_name e), glDeleteBuffers 1 (VBO_name e),
               glDeleteProgram (shaderProgram_name e)]"
    by (simp add: filter_deletes_from_loop [OF assms])
  from left show "\<exists>earlier. trace (fst (main e)) =
               earlier @
               [glfwWindowShouldClose (glfwCreateWindow_result e),
                glDeleteVertexArrays 1 (VAO_name e), glDeleteBuffers 1 (VBO_name e),
                glDeleteProgram (shaderProgram_name e), glfwTerminate]"
    by (rule main_tail [OF assms])
next
  assume "\<not> (\<exists>f \<in> set (frames e). closes f)"
  then show "filter deletes (from_loop (glfwCreateWindow_result e) (trace (fst (main e)))) = []"
    by (simp add: filter_deletes_from_loop [OF assms])
qed

theorem object_lifetimes_witness:
  "glfwCreateWindow_result example_env \<noteq> NULL \<and> gladLoadGLLoader_result example_env \<noteq> 0 \<and>
   (\<exists>f \<in> set (frames example_env). closes f) \<and>
   filter deletes (before_loop (Window 7) (trace (fst (main example_env)))) =
     [glDeleteShader 1, glDeleteShader 2] \<and>
   filter deletes (from_loop (Window 7) (trace (fst (main example_env)))) =
     [glDeleteVertexArrays 1 1, glDeleteBuffers 1 1, glDeleteProgram 3] \<and>
   filter uses_name (from_loop (Window 7) (trace (fst (main example_env)))) =
     [glUseProgram 3, glBindVertexArray 1, glUseProgram 3, glBindVertexArray 1] \<and>
   glfwCreateWindow_result (example_env\<lparr>frames := []\<rparr>) \<noteq> NULL \<and>
   gladLoadGLLoader_result (example_env\<lparr>frames := []\<rparr>) \<noteq> 0 \<and>
   \<not> (\<exists>f \<in> set (frames (example_env\<lparr>frames := []\<rparr>)). closes f) \<and>
   filter deletes (from_loop (Window 7) (trace (fst (main (example_env\<lparr>frames := []\<rparr>))))) = []"
proof -
  have h: "glfwCreateWindow_result example_env \<noteq> NULL"
    "gladLoadGLLoader_result example_env \<noteq> 0"
    by (simp_all add: example_env_simps)
  have c: "\<exists>f \<in> set (frames example_env). closes f"
    by (simp add: example_env_simps closes_def)
  have h': "glfwCreateWindow_result (example_env\<lparr>frames := []\<rparr>) \<noteq> NULL"
    "gladLoadGLLoader_result (example_env\<lparr>frames := []\<rparr>) \<noteq> 0"
    by (simp_all add: running_env_simps)
  have c': "\<not> (\<exists>f \<in> set (frames (example_env\<lparr>frames := []\<rparr>)). closes f)"
    by (simp add: running_env_simps)
  show ?thesis
    using h c h' c' object_lifetimes [OF h] object_lifetimes [OF h']
    by (simp add: example_env_simps running_env_simps closes_def filter_deletes_startup)
qed

text \<open>
  C4, as the claim words it, fails for the shader objects and for the buffer. In the
  example run, which leaves the loop and returns \<open>0\<close>, the vertex shader is deleted
  before the first test of the loop condition and not from there on, so not at shutdown;
  and from the loop on the only calls given a name are \<open>glUseProgram\<close> and
  \<open>glBindVertexArray\<close>, so the buffer name is bound in no frame.
\<close>

theorem shader_deleted_before_loop:
  "snd (main example_env) = Some 0 \<and>
   glDeleteShader (vertexShader_name example_env)
     \<in> set (before_loop (Window 7) (trace (fst (main example_env)))) \<and>
   glDeleteShader (vertexShader_name example_env)
     \<notin> set (from_loop (Window 7) (trace (fst (main example_env)))) \<and>
   filter uses_name (from_loop (Window 7) (trace (fst (main example_env)))) =
     [glUseProgram 3, glBindVertexArray 1, glUseProgram 3, glBindVertexArray 1] \<and>
   glBindBuffer GL_ARRAY_BUFFER (VBO_name example_env)
     \<notin> set (from_loop (Window 7) (trace (fst (main example_env))))"
proof -
  have w: "glfwCreateWindow_result example_env \<noteq> NULL"
    and l: "gladLoadGLLoader_result example_env \<noteq> 0"
    by (simp_all add: example_env_simps)
  have c: "\<exists>f \<in> set (frames example_env). closes f"
    by (simp add: example_env_simps closes_def)
  have 1: "snd (main example_env) = Some 0"
    using c by (simp add: main_run(2) [OF w l])
  have 2: "glDeleteShader (vertexShader_name example_env)
     \<in> set (before_loop (glfwCreateWindow_result example_env) (trace (fst (main example_env))))"
    by (simp add: before_loop_main [OF w l] startup_calls_def)
  have "\<not> loop_call (glDeleteShader (vertexShader_name example_env))"
    by simp
  then have "glDeleteShader (vertexShader_name example_env)
     \<notin> set (loop_calls (glfwCreateWindow_result example_env) (shaderProgram_name example_env)
            (VAO_name example_env) (frames example_env))"
    using loop_calls_loop_call by blast
  then have 3: "glDeleteShader (vertexShader_name example_env)
     \<notin> set (from_loop (glfwCreateWindow_result example_env) (trace (fst (main example_env))))"
    by (simp add: from_loop_main [OF w l] shutdown_calls_def)
  have 4: "filter uses_name
       (from_loop (glfwCreateWindow_result example_env) (trace (fst (main example_env)))) =
     [glUseProgram 3, glBindVertexArray 1, glUseProgram 3, glBindVertexArray 1]"
    unfolding filter_uses_name_from_loop [OF w l]
    by (simp add: example_env_simps closes_def)
  have "\<not> loop_call (glBindBuffer GL_ARRAY_BUFFER (VBO_name example_env))"
    by simp
  then have "glBindBuffer GL_ARRAY_BUFFER (VBO_name example_env)
     \<notin> set (loop_calls (glfwCreateWindow_result example_env) (shaderProgram_name example_env)
            (VAO_name example_env) (frames example_env))"
    using loop_calls_loop_call by blast
  then have 5: "glBindBuffer GL_ARRAY_BUFFER (VBO_name example_env)
     \<notin> set (from_loop (glfwCreateWindow_result example_env) (trace (fst (main example_env))))"
    by (simp add: from_loop_main [OF w l] shutdown_calls_def)
  from 1 2 3 4 5 show ?thesis
    by (simp only: example_env_simps(1) simp_thms)
qed

subsection \<open>Closing the window\<close>

text \<open>
  C5. \<open>processInput\<close> asks for the state of the escape key and, exactly when the key is
  down, calls \<open>glfwSetWindowShouldClose(window, true)\<close>, which sets the close flag;
  otherwise it leaves the flag as it was. The render loop tests the flag at the top: with
  the flag set it is left after that one test, whatever frames are still to come; with
  the flag unset it runs the body once and tests again, and with no frame left it has not
  been left. The body sets the flag exactly when the escape key is down or a close request
  arrives. So the loop runs the frames up to and including the first one that asks to
  close, and is left exactly when the flag is set. In a run with its window and its
  function pointers, \<open>main\<close> makes the calls of the startup, of these frames, and of one
  more test; when a frame has asked to close it then deletes the vertex array, the buffer
  and the program, calls \<open>glfwTerminate\<close> and returns \<open>0\<close>, and otherwise it has not
  returned, has deleted nothing from the loop on and has not terminated the library.
\<close>

theorem escape_closes_and_loop_ends:
  "processInput window key w =
     (if key = GLFW_PRESS
      then w\<lparr>trace := trace w @ [glfwGetKey window GLFW_KEY_ESCAPE,
                                  glfwSetWindowShouldClose window True],
             shouldClose := True\<rparr>
      else w\<lparr>trace := trace w @ [glfwGetKey window GLFW_KEY_ESCAPE]\<rparr>) \<and>
   trace (processInput window key w) =
     trace w @ glfwGetKey window GLFW_KEY_ESCAPE #
       (if key = GLFW_PRESS then [glfwSetWindowShouldClose window True] else []) \<and>
   shouldClose (processInput window key w) = (shouldClose w \<or> key = GLFW_PRESS) \<and>
   (shouldClose w \<longrightarrow>
      render_loop window shaderProgram VAO fs w =
        (w\<lparr>trace := trace w @ [glfwWindowShouldClose window]\<rparr>, True)) \<and>
   (\<not> shouldClose w \<longrightarrow>
      render_loop window shaderProgram VAO [] w =
        (w\<lparr>trace := trace w @ [glfwWindowShouldClose window]\<rparr>, False)) \<and>
   (\<not> shouldClose w \<longrightarrow>
      render_loop window shaderProgram VAO (f # fs) w =
        render_loop window shaderProgram VAO fs
          (loop_body window shaderProgram VAO f
             (w\<lparr>trace := trace w @ [glfwWindowShouldClose window]\<rparr>))) \<and>
   shouldClose (loop_body window shaderProgram VAO f w) =
     (shouldClose w \<or> escape_key f = GLFW_PRESS \<or> CloseRequest \<in> set (events f)) \<and>
   (\<not> shouldClose w \<longrightarrow>
      trace (fst (render_loop window shaderProgram VAO fs w)) =
        trace w @
        concat (map (\<lambda>f.
            [glfwWindowShouldClose window,
             glfwGetKey window GLFW_KEY_ESCAPE] @
            (if escape_key f = GLFW_PRESS
             then [glfwSetWindowShouldClose window True] else []) @
            [glClearColor 0.2 0.3 0.3 1.0,
             glClear GL_COLOR_BUFFER_BIT,
             glUseProgram shaderProgram,
             glBindVertexArray VAO,
             glDrawArrays GL_TRIANGLES 0 3,
             glfwSwapBuffers window,
             glfwPollEvents] @
            resize_calls (events f))
          (entered fs))
        @ [glfwWindowShouldClose window]) \<and>
   snd (render_loop window shaderProgram VAO fs w) =
     (shouldClose w \<or> (\<exists>f \<in> set fs. closes f)) \<and>
   snd (render_loop window shaderProgram VAO fs w) =
     shouldClose (fst (render_loop window shaderProgram VAO fs w)) \<and>
   (glfwCreateWindow_result e \<noteq> NULL \<and> gladLoadGLLoader_result e \<noteq> 0 \<longrightarrow>
      trace (fst (main e)) =
        startup_calls e @
        concat (map (\<lambda>f.
            [glfwWindowShouldClose (glfwCreateWindow_result e),
             glfwGetKey (glfwCreateWindow_result e) GLFW_KEY_ESCAPE] @
            (if escape_key f = GLFW_PRESS
             then [glfwSetWindowShouldClose (glfwCreateWindow_result e) True] else []) @
            [glClearColor 0.2 0.3 0.3 1.0,
             glClear GL_COLOR_BUFFER_BIT,
             glUseProgram (shaderProgram_name e),
             glBindVertexArray (VAO_name e),
             glDrawArrays GL_TRIANGLES 0 3,
             glfwSwapBuffers (glfwCreateWindow_result e),
             glfwPollEvents] @
            resize_calls (events f))
          (entered (frames e)))
        @ [glfwWindowShouldClose (glfwCreateWindow_result e)]
        @ (if \<exists>f \<in> set (frames e). closes f
           then [glDeleteVertexArrays 1 (VAO_name e), glDeleteBuffers 1 (VBO_name e),
                 glDeleteProgram (shaderProgram_name e), glfwTerminate]
           else []) \<and>
      shouldClose (fst (main e)) = (\<exists>f \<in> set (frames e). closes f) \<and>
      snd (main e) = (if shouldClose (fst (main e)) then Some 0 else None) \<and>
      (shouldClose (fst (main e)) \<longrightarrow>
         (\<exists>earlier. trace (fst (main e)) =
            earlier @
            [glfwWindowShouldClose (glfwCreateWindow_result e),
             glDeleteVertexArrays 1 (VAO_name e), glDeleteBuffers 1 (VBO_name e),
             glDeleteProgram (shaderProgram_name e), glfwTerminate])) \<and>
      (\<not> shouldClose (fst (main e)) \<longrightarrow>
         filter deletes (from_loop (glfwCreateWindow_result e) (trace (fst (main e)))) = [] \<and>
         glfwTerminate \<notin> set (trace (fst (main e)))))"
proof (intro conjI impI)
  show "processInput window key w =
     (if key = GLFW_PRESS
      then w\<lparr>trace := trace w @ [glfwGetKey window GLFW_KEY_ESCAPE,
                                  glfwSetWindowShouldClose window True],
             shouldClose := True\<rparr>
      else w\<lparr>trace := trace w @ [glfwGetKey window GLFW_KEY_ESCAPE]\<rparr>)"
    by (rule processInput_eq)
  show "trace (processInput window key w) =
     trace w @ glfwGetKey window GLFW_KEY_ESCAPE #
       (if key = GLFW_PRESS then [glfwSetWindowShouldClose window True] else [])"
    by (rule trace_processInput)
  show "shouldClose (processInput window key w) = (shouldClose w \<or> key = GLFW_PRESS)"
    by (rule shouldClose_processInput)
  show "shouldClose (loop_body window shaderProgram VAO f w) =
     (shouldClose w \<or> escape_key f = GLFW_PRESS \<or> CloseRequest \<in> set (events f))"
    by (simp only: shouldClose_loop_body closes_def)
  show "snd (render_loop window shaderProgram VAO fs w) =
     (shouldClose w \<or> (\<exists>f \<in> set fs. closes f))"
    by (rule left_render_loop)
  show "snd (render_loop window shaderProgram VAO fs w) =
     shouldClose (fst (render_loop window shaderProgram VAO fs w))"
    by (simp only: left_render_loop shouldClose_render_loop)
next
  assume "shouldClose w"
  then show "render_loop window shaderProgram VAO fs w =
        (w\<lparr>trace := trace w @ [glfwWindowShouldClose window]\<rparr>, True)"
    by (simp add: render_loop_closed calls_def)
next
  assume "\<not> shouldClose w"
  then show "render_loop window shaderProgram VAO [] w =
        (w\<lparr>trace := trace w @ [glfwWindowShouldClose window]\<rparr>, False)"
    by (simp add: lib_glfwWindowShouldClose_def calls_def)
next
  assume n: "\<not> shouldClose w"
  show "render_loop window shaderProgram VAO (f # fs) w =
        render_loop window shaderProgram VAO fs
          (loop_body window shaderProgram VAO f
             (w\<lparr>trace := trace w @ [glfwWindowShouldClose window]\<rparr>))"
    unfolding render_loop_open_Cons [OF n] calls_def by (rule refl)
next
  assume n: "\<not> shouldClose w"
  show "trace (fst (render_loop window shaderProgram VAO fs w)) =
        trace w @
        concat (map (\<lambda>f.
            [glfwWindowShouldClose window,
             glfwGetKey window GLFW_KEY_ESCAPE] @
            (if escape_key f = GLFW_PRESS
             then [glfwSetWindowShouldClose window True] else []) @
            [glClearColor 0.2 0.3 0.3 1.0,
             glClear GL_COLOR_BUFFER_BIT,
             glUseProgram shaderProgram,
             glBindVertexArray VAO,
             glDrawArrays GL_TRIANGLES 0 3,
             glfwSwapBuffers window,
             glfwPollEvents] @
            resize_calls (events f))
          (entered fs))
        @ [glfwWindowShouldClose window]"
    unfolding trace_render_loop [OF n] by (simp add: loop_calls_def frame_calls_def)
next
  assume ok: "glfwCreateWindow_result e \<noteq> NULL \<and> gladLoadGLLoader_result e \<noteq> 0"
  then have w: "glfwCreateWindow_result e \<noteq> NULL" and l: "gladLoadGLLoader_result e \<noteq> 0"
    by simp_all
  show "trace (fst (main e)) =
        startup_calls e @
        concat (map (\<lambda>f.
            [glfwWindowShouldClose (glfwCreateWindow_result e),
             glfwGetKey (glfwCreateWindow_result e) GLFW_KEY_ESCAPE] @
            (if escape_key f = GLFW_PRESS
             then [glfwSetWindowShouldClose (glfwCreateWindow_result e) True] else []) @
            [glClearColor 0.2 0.3 0.3 1.0,
             glClear GL_COLOR_BUFFER_BIT,
             glUseProgram (shaderProgram_name e),
             glBindVertexArray (VAO_name e),
             glDrawArrays GL_TRIANGLES 0 3,
             glfwSwapBuffers (glfwCreateWindow_result e),
             glfwPollEvents] @
            resize_calls (events f))
          (entered (frames e)))
        @ [glfwWindowShouldClose (glfwCreateWindow_result e)]
        @ (if \<exists>f \<in> set (frames e). closes f
           then [glDeleteVertexArrays 1 (VAO_name e), glDeleteBuffers 1 (VBO_name e),
                 glDeleteProgram (shaderProgram_name e), glfwTerminate]
           else [])"
    by (simp only: main_run(1) [OF w l])
       (simp add: loop_calls_def frame_calls_def shutdown_calls_def)
  show "shouldClose (fst (main e)) = (\<exists>f \<in> set (frames e). closes f)"
    by (rule main_run(3) [OF w l])
  show "snd (main e) = (if shouldClose (fst (main e)) then Some 0 else None)"
    by (simp add: main_run(2,3) [OF w l])
next
  assume ok: "glfwCreateWindow_result e \<noteq> NULL \<and> gladLoadGLLoader_result e \<noteq> 0"
    and closed: "shouldClose (fst (main e))"
  from ok have w: "glfwCreateWindow_result e \<noteq> NULL" and l: "gladLoadGLLoader_result e \<noteq> 0"
    by simp_all
  from closed have "\<exists>f \<in> set (frames e). closes f"
    by (simp add: main_run(3) [OF w l])
  then show "\<exists>earlier. trace (fst (main e)) =
            earlier @
            [glfwWindowShouldClose (glfwCreateWindow_result e),
             glDeleteVertexArrays 1 (VAO_name e), glDeleteBuffers 1 (VBO_name e),
             glDeleteProgram (shaderProgram_name e), glfwTerminate]"
    by (rule main_tail [OF w l])
next
  assume ok: "glfwCreateWindow_result e \<noteq> NULL \<and> gladLoadGLLoader_result e \<noteq> 0"
    and running: "\<not> shouldClose (fst (main e))"
  from ok have w: "glfwCreateWindow_result e \<noteq> NULL" and l: "gladLoadGLLoader_result e \<noteq> 0"
    by simp_all
  from running have n: "\<not> (\<exists>f \<in> set (frames e). closes f)"
    by (simp add: main_run(3) [OF w l])
  show "filter deletes (from_loop (glfwCreateWindow_result e) (trace (fst (main e)))) = []"
    using n by (simp add: filter_deletes_from_loop [OF w l])
next
  assume ok: "glfwCreateWindow_result e \<noteq> NULL \<and> gladLoadGLLoader_result e \<noteq> 0"
    and running: "\<not> shouldClose (fst (main e))"
  from ok have w: "glfwCreateWindow_result e \<noteq> NULL" and l: "gladLoadGLLoader_result e \<noteq> 0"
    by simp_all
  from running have n: "\<not> (\<exists>f \<in> set (frames e). closes f)"
    by (simp add: main_run(3) [OF w l])
  show "glfwTerminate \<notin> set (trace (fst (main e)))"
    using n by (simp add: main_run(1) [OF w l] startup_calls_no_terminate loop_calls_no_terminate)
qed

theorem escape_closes_and_loop_ends_witness:
  "glfwCreateWindow_result example_env \<noteq> NULL \<and> gladLoadGLLoader_result example_env \<noteq> 0 \<and>
   shouldClose (fst (main example_env)) \<and>
   snd (main example_env) = Some 0 \<and>
   shouldClose (processInput (Window 7) GLFW_PRESS initial) \<and>
   \<not> shouldClose initial \<and>
   render_loop (Window 7) 3 1 [] initial =
     (initial\<lparr>trace := trace initial @ [glfwWindowShouldClose (Window 7)]\<rparr>, False) \<and>
   render_loop (Window 7) 3 1 [\<lparr>escape_key = GLFW_RELEASE, events = []\<rparr>]
       (processInput (Window 7) GLFW_PRESS initial) =
     ((processInput (Window 7) GLFW_PRESS initial)
        \<lparr>trace := trace (processInput (Window 7) GLFW_PRESS initial)
                    @ [glfwWindowShouldClose (Window 7)]\<rparr>, True) \<and>
   glfwCreateWindow_result (example_env\<lparr>frames := []\<rparr>) \<noteq> NULL \<and>
   gladLoadGLLoader_result (example_env\<lparr>frames := []\<rparr>) \<noteq> 0 \<and>
   \<not> shouldClose (fst (main (example_env\<lparr>frames := []\<rparr>))) \<and>
   snd (main (example_env\<lparr>frames := []\<rparr>)) = None \<and>
   glfwTerminate \<notin> set (trace (fst (main (example_env\<lparr>frames := []\<rparr>))))"
proof -
  have h: "glfwCreateWindow_result example_env \<noteq> NULL"
    "gladLoadGLLoader_result example_env \<noteq> 0"
    by (simp_all add: example_env_simps)
  have c: "shouldClose (fst (main example_env))"
    by (simp add: main_run(3) [OF h] example_env_simps closes_def)
  have h': "glfwCreateWindow_result (example_env\<lparr>frames := []\<rparr>) \<noteq> NULL"
    "gladLoadGLLoader_result (example_env\<lparr>frames := []\<rparr>) \<noteq> 0"
    by (simp_all add: running_env_simps)
  have r: "\<not> shouldClose (fst (main (example_env\<lparr>frames := []\<rparr>)))"
    by (simp add: main_run(3) [OF h'])
  have i: "\<not> shouldClose initial"
    by (simp add: initial_def)
  have p: "shouldClose (processInput (Window 7) GLFW_PRESS initial)"
    by (simp add: shouldClose_processInput)
  note first = escape_closes_and_loop_ends [where e = example_env and window = "Window 7"
      and key = GLFW_PRESS and w = initial and shaderProgram = 3 and VAO = 1
      and fs = "[]" and f = "\<lparr>escape_key = GLFW_RELEASE, events = []\<rparr>"]
  note second = escape_closes_and_loop_ends [where e = "example_env\<lparr>frames := []\<rparr>"
      and window = "Window 7" and key = GLFW_PRESS
      and w = "processInput (Window 7) GLFW_PRESS initial" and shaderProgram = 3 and VAO = 1
      and fs = "[\<lparr>escape_key = GLFW_RELEASE, events = []\<rparr>]"
      and f = "\<lparr>escape_key = GLFW_RELEASE, events = []\<rparr>"]
  show ?thesis
    using h c h' r i p first second
    by (simp add: startup_calls_no_terminate)
qed

text \<open>
  C10. The loop condition is tested at the top of an iteration only. When the escape key
  is down in an iteration entered with the flag unset, the close request is followed by
  the rest of that iteration (clear, draw, swap, poll), then by the one test that leaves
  the loop, whatever frames would follow: one frame is drawn after the request.
\<close>

theorem close_request_finishes_frame:
  assumes "\<not> shouldClose w" and "escape_key f = GLFW_PRESS"
  shows "trace (fst (render_loop window shaderProgram VAO (f # fs) w)) =
           trace w @
           [glfwWindowShouldClose window,
            glfwGetKey window GLFW_KEY_ESCAPE,
            glfwSetWindowShouldClose window True,
            glClearColor 0.2 0.3 0.3 1.0,
            glClear GL_COLOR_BUFFER_BIT,
            glUseProgram shaderProgram,
            glBindVertexArray VAO,
            glDrawArrays GL_TRIANGLES 0 3,
            glfwSwapBuffers window,
            glfwPollEvents] @
           resize_calls (events f) @
           [glfwWindowShouldClose window] \<and>
         snd (render_loop window shaderProgram VAO (f # fs) w)"
proof
  have "closes f"
    using assms(2) by (simp add: closes_def)
  then show "trace (fst (render_loop window shaderProgram VAO (f # fs) w)) =
           trace w @
           [glfwWindowShouldClose window,
            glfwGetKey window GLFW_KEY_ESCAPE,
            glfwSetWindowShouldClose window True,
            glClearColor 0.2 0.3 0.3 1.0,
            glClear GL_COLOR_BUFFER_BIT,
            glUseProgram shaderProgram,
            glBindVertexArray VAO,
            glDrawArrays GL_TRIANGLES 0 3,
            glfwSwapBuffers window,
            glfwPollEvents] @
           resize_calls (events f) @
           [glfwWindowShouldClose window]"
    using assms(2)
    by (simp only: trace_render_loop [OF assms(1)]) (simp add: loop_calls_def frame_calls_def)
  show "snd (render_loop window shaderProgram VAO (f # fs) w)"
    using \<open>closes f\<close> by (simp only: left_render_loop) simp
qed

theorem close_request_finishes_frame_witness:
  "\<not> shouldClose initial \<and>
   escape_key \<lparr>escape_key = GLFW_PRESS, events = []\<rparr> = GLFW_PRESS \<and>
   trace (fst (render_loop (Window 7) 3 1
            [\<lparr>escape_key = GLFW_PRESS, events = []\<rparr>,
             \<lparr>escape_key = GLFW_RELEASE, events = []\<rparr>] initial)) =
     [glfwWindowShouldClose (Window 7),
      glfwGetKey (Window 7) GLFW_KEY_ESCAPE,
      glfwSetWindowShouldClose (Window 7) True,
      glClearColor 0.2 0.3 0.3 1.0,
      glClear GL_COLOR_BUFFER_BIT,
      glUseProgram 3,
      glBindVertexArray 1,
      glDrawArrays GL_TRIANGLES 0 3,
      glfwSwapBuffers (Window 7),
      glfwPollEvents,
      glfwWindowShouldClose (Window 7)] \<and>
   snd (render_loop (Window 7) 3 1
            [\<lparr>escape_key = GLFW_PRESS, events = []\<rparr>,
             \<lparr>escape_key = GLFW_RELEASE, events = []\<rparr>] initial)"
proof -
  have h: "\<not> shouldClose initial"
    "escape_key \<lparr>escape_key = GLFW_PRESS, events = []\<rparr> = GLFW_PRESS"
    by (simp_all add: initial_def)
  have t: "trace initial = []"
    by (simp add: initial_def)
  show ?thesis
    using h close_request_finishes_frame [OF h, of "Window 7" 3 1
        "[\<lparr>escape_key = GLFW_RELEASE, events = []\<rparr>]"]
    by (simp add: t)
qed

subsection \<open>Window parameters and the resize callback\<close>

text \<open>
  C7. The resize callback makes one call, \<open>glViewport(0, 0, width, height)\<close> with the
  width and height it was given, and leaves the rest of the state as it was. \<open>main\<close>
  registers it before the loop, and the viewport calls of a run are exactly the ones for
  the sizes delivered in the frames the loop enters, in order.
\<close>

theorem resize_callback_forwards_size:
  "framebuffer_size_callback window width height w =
     w\<lparr>trace := trace w @ [glViewport 0 0 width height]\<rparr> \<and>
   (glfwCreateWindow_result e \<noteq> NULL \<and> gladLoadGLLoader_result e \<noteq> 0 \<longrightarrow>
      glfwSetFramebufferSizeCallback (glfwCreateWindow_result e)
        \<in> set (before_loop (glfwCreateWindow_result e) (trace (fst (main e)))) \<and>
      filter is_glViewport (trace (fst (main e))) =
        concat (map (\<lambda>f. resize_calls (events f)) (entered (frames e))))"
proof (intro conjI impI)
  show "framebuffer_size_callback window width height w =
     w\<lparr>trace := trace w @ [glViewport 0 0 width height]\<rparr>"
    by (simp add: framebuffer_size_callback_def calls_def)
next
  assume ok: "glfwCreateWindow_result e \<noteq> NULL \<and> gladLoadGLLoader_result e \<noteq> 0"
  then have w: "glfwCreateWindow_result e \<noteq> NULL" and l: "gladLoadGLLoader_result e \<noteq> 0"
    by simp_all
  show "glfwSetFramebufferSizeCallback (glfwCreateWindow_result e)
        \<in> set (before_loop (glfwCreateWindow_result e) (trace (fst (main e))))"
    by (simp only: before_loop_main [OF w l] registered_startup)
  show "filter is_glViewport (trace (fst (main e))) =
        concat (map (\<lambda>f. resize_calls (events f)) (entered (frames e)))"
    by (simp add: main_run(1) [OF w l] filter_viewport_startup filter_viewport_loop_calls
        shutdown_calls_def)
qed

theorem resize_callback_forwards_size_witness:
  "glfwCreateWindow_result example_env \<noteq> NULL \<and> gladLoadGLLoader_result example_env \<noteq> 0 \<and>
   framebuffer_size_callback (Window 7) 1024 768 initial =
     initial\<lparr>trace := trace initial @ [glViewport 0 0 1024 768]\<rparr> \<and>
   filter is_glViewport (trace (fst (main example_env))) = [glViewport 0 0 1024 768]"
proof -
  have h: "glfwCreateWindow_result example_env \<noteq> NULL \<and> gladLoadGLLoader_result example_env \<noteq> 0"
    by (simp add: example_env_simps)
  show ?thesis
    using h resize_callback_forwards_size [where e = example_env and window = "Window 7"
        and width = 1024 and height = 768 and w = initial]
    by (simp add: example_env_simps closes_def)
qed

text \<open>
  C6. In every run the calls that fix the window and its context are the three hints
  (major version 3, minor version 3, core profile) and one \<open>glfwCreateWindow\<close> with
  width 800 and height 600.
\<close>

theorem window_parameters:
  "filter window_parameter (trace (fst (main e))) =
     [glfwWindowHint GLFW_CONTEXT_VERSION_MAJOR (Value 3),
      glfwWindowHint GLFW_CONTEXT_VERSION_MINOR (Value 3),
      glfwWindowHint GLFW_OPENGL_PROFILE GLFW_OPENGL_CORE_PROFILE,
      glfwCreateWindow 800 600 ''LearnOpenGL'']"
proof (cases "glfwCreateWindow_result e = NULL")
  case True
  then show ?thesis
    by (simp add: main_window_failed)
next
  case False
  show ?thesis
  proof (cases "gladLoadGLLoader_result e = 0")
    case True
    with False show ?thesis
      by (simp add: main_loader_failed)
  next
    case loaded: False
    show ?thesis
      by (simp add: main_run(1) [OF False loaded] filter_parameter_startup
          filter_loop_calls [OF not_window_parameter] shutdown_calls_def)
  qed
qed

text \<open>
  C8. Both abort paths return \<open>-1\<close>. The one for a missing window ends with
  \<open>glfwTerminate\<close>; the one for a failed loader never calls it.
\<close>

theorem loader_failure_skips_terminate:
  "(glfwCreateWindow_result e = NULL \<longrightarrow>
      snd (main e) = Some (- 1) \<and> last (trace (fst (main e))) = glfwTerminate) \<and>
   (glfwCreateWindow_result e \<noteq> NULL \<and> gladLoadGLLoader_result e = 0 \<longrightarrow>
      snd (main e) = Some (- 1) \<and> glfwTerminate \<notin> set (trace (fst (main e))))"
  by (simp add: main_window_failed main_loader_failed)

theorem loader_failure_skips_terminate_witness:
  "glfwCreateWindow_result (example_env\<lparr>glfwCreateWindow_result := NULL\<rparr>) = NULL \<and>
   last (trace (fst (main (example_env\<lparr>glfwCreateWindow_result := NULL\<rparr>)))) = glfwTerminate \<and>
   glfwCreateWindow_result (example_env\<lparr>gladLoadGLLoader_result := 0\<rparr>) \<noteq> NULL \<and>
   gladLoadGLLoader_result (example_env\<lparr>gladLoadGLLoader_result := 0\<rparr>) = 0 \<and>
   glfwTerminate \<notin> set (trace (fst (main (example_env\<lparr>gladLoadGLLoader_result := 0\<rparr>)))) \<and>
   snd (main (example_env\<lparr>gladLoadGLLoader_result := 0\<rparr>)) = Some (- 1)"
  using loader_failure_skips_terminate [of "example_env\<lparr>glfwCreateWindow_result := NULL\<rparr>"]
    loader_failure_skips_terminate [of "example_env\<lparr>gladLoadGLLoader_result := 0\<rparr>"]
  by (simp add: example_env_simps)

text \<open>
  C9. The value \<open>glfwInit\<close> returns has no influence on the run: changing it changes
  nothing, and every run starts with \<open>glfwInit\<close>, the three hints and
  \<open>glfwCreateWindow\<close>.
\<close>

theorem init_result_ignored:
  "main (e\<lparr>glfwInit_result := r\<rparr>) = main e \<and>
   take 5 (trace (fst (main e))) =
     [glfwInit,
      glfwWindowHint GLFW_CONTEXT_VERSION_MAJOR (Value 3),
      glfwWindowHint GLFW_CONTEXT_VERSION_MINOR (Value 3),
      glfwWindowHint GLFW_OPENGL_PROFILE GLFW_OPENGL_CORE_PROFILE,
      glfwCreateWindow 800 600 ''LearnOpenGL'']"
proof
  show "main (e\<lparr>glfwInit_result := r\<rparr>) = main e"
    by (simp add: main_def Let_def)
  show "take 5 (trace (fst (main e))) =
     [glfwInit,
      glfwWindowHint GLFW_CONTEXT_VERSION_MAJOR (Value 3),
      glfwWindowHint GLFW_CONTEXT_VERSION_MINOR (Value 3),
      glfwWindowHint GLFW_OPENGL_PROFILE GLFW_OPENGL_CORE_PROFILE,
      glfwCreateWindow 800 600 ''LearnOpenGL'']"
  proof (cases "glfwCreateWindow_result e = NULL")
    case True
    then show ?thesis
      by (simp add: main_window_failed)
  next
    case False
    show ?thesis
    proof (cases "gladLoadGLLoader_result e = 0")
      case True
      with False show ?thesis
        by (simp add: main_loader_failed)
    next
      case loaded: False
      show ?thesis
        by (simp only: main_run(1) [OF False loaded] take5_startup)
    qed
  qed
qed

end
